theory Spec2Isabelle
  imports Main
begin

section \<open>Sparse matrices over a string-keyed store (sparse\_matrix.js)\<close>

text \<open>
  The program keeps a matrix as two dimensions and an object used as a dictionary
  from the key text \<open>row,col\<close> to a number. Everything below follows
  \<^verbatim>\<open>src/sparse_matrix.js\<close>.

  \<^bold>\<open>Numbers.\<close> The numbers the program handles come from \<^verbatim>\<open>parseInt\<close> and from
  \<^verbatim>\<open>+\<close>, \<^verbatim>\<open>-\<close>, \<^verbatim>\<open>*\<close> on them, so they are integers or \<^verbatim>\<open>NaN\<close>; a pattern
  \<^verbatim>\<open>[row, col]\<close> bound to an array that is too short gives \<^verbatim>\<open>undefined\<close>.
  A value is therefore an integer, \<^verbatim>\<open>NaN\<close> or \<^verbatim>\<open>undefined\<close>. Integers are the
  mathematical ones: the model agrees with the double-precision numbers of the
  program as long as every number involved is a safe integer (below \<open>2^53\<close> in
  magnitude). Above that the program holds the nearest double; rounding and
  infinities are not modelled, and what is proved below about reading back a
  written number is proved for the safe integers only. Negative zero is identified
  with zero: \<^verbatim>\<open>===\<close>, \<^verbatim>\<open>||\<close> and template strings do not tell them apart.

  \<^bold>\<open>Text.\<close> A \<^typ>\<open>string\<close> stands for a string of the program whose code
  units are all below \<open>0x100\<close>; one \<^typ>\<open>char\<close> is one code unit.
\<close>

subsection \<open>Values\<close>

datatype jsval = Num int | NaN | Undefined

text \<open>\<^verbatim>\<open>ToNumber\<close>: \<^verbatim>\<open>undefined\<close> becomes \<^verbatim>\<open>NaN\<close>.\<close>

fun num_add :: "jsval \<Rightarrow> jsval \<Rightarrow> jsval" where
  "num_add (Num a) (Num b) = Num (a + b)"
| "num_add _ _ = NaN"

fun num_sub :: "jsval \<Rightarrow> jsval \<Rightarrow> jsval" where
  "num_sub (Num a) (Num b) = Num (a - b)"
| "num_sub _ _ = NaN"

fun num_mul :: "jsval \<Rightarrow> jsval \<Rightarrow> jsval" where
  "num_mul (Num a) (Num b) = Num (a * b)"
| "num_mul _ _ = NaN"

fun num_neg :: "jsval \<Rightarrow> jsval" where
  "num_neg (Num a) = Num (- a)"
| "num_neg _ = NaN"

text \<open>\<^verbatim>\<open>a !== b\<close>: \<^verbatim>\<open>NaN\<close> differs from everything, itself included.\<close>

fun strict_ne :: "jsval \<Rightarrow> jsval \<Rightarrow> bool" where
  "strict_ne (Num a) (Num b) = (a \<noteq> b)"
| "strict_ne Undefined Undefined = False"
| "strict_ne _ _ = True"

text \<open>\<^verbatim>\<open>v || 0\<close>: the falsy values are \<open>0\<close>, \<^verbatim>\<open>NaN\<close> and \<^verbatim>\<open>undefined\<close>.\<close>

fun or_zero :: "jsval \<Rightarrow> jsval" where
  "or_zero (Num a) = Num a"
| "or_zero _ = Num 0"

subsection \<open>Text primitives\<close>

text \<open>
  The white space that \<^verbatim>\<open>String.prototype.trim\<close>, \<^verbatim>\<open>parseInt\<close> and
  \<^verbatim>\<open>Number\<close> strip: tab, line feed, vertical tab, form feed, carriage return,
  space and no-break space (the others lie above \<open>0xFF\<close>).
\<close>

definition is_ws :: "char \<Rightarrow> bool" where
  "is_ws c = (c \<in> set [CHR 0x09, CHR 0x0A, CHR 0x0B, CHR 0x0C, CHR 0x0D, CHR 0x20, CHR 0xA0])"

definition trim :: "string \<Rightarrow> string" where
  "trim s = rev (dropWhile is_ws (rev (dropWhile is_ws s)))"

definition startsWith :: "string \<Rightarrow> string \<Rightarrow> bool" where
  "startsWith s p = (take (length p) s = p)"

text \<open>\<^verbatim>\<open>s.replace(p, '')\<close> with a string pattern: the first occurrence goes.\<close>

fun replace_first :: "string \<Rightarrow> string \<Rightarrow> string" where
  "replace_first p [] = []"
| "replace_first p (c # cs) =
     (if startsWith (c # cs) p then drop (length p) (c # cs) else c # replace_first p cs)"

text \<open>\<^verbatim>\<open>s.indexOf(c)\<close> for a single character; \<open>None\<close> is \<open>-1\<close>.\<close>

fun indexOf :: "string \<Rightarrow> char \<Rightarrow> nat option" where
  "indexOf [] c = None"
| "indexOf (x # xs) c =
     (if x = c then Some 0 else (case indexOf xs c of None \<Rightarrow> None | Some i \<Rightarrow> Some (Suc i)))"

text \<open>\<^verbatim>\<open>s.slice(a, b)\<close> for indices \<open>0 \<le> a\<close>, \<open>0 \<le> b\<close>: empty when \<open>b \<le> a\<close>.\<close>

definition slice :: "string \<Rightarrow> nat \<Rightarrow> nat \<Rightarrow> string" where
  "slice s a b = take (b - a) (drop a s)"

text \<open>
  \<^verbatim>\<open>s.split(sep)\<close> for a single character: never an empty array, the empty
  string gives one empty piece.
\<close>

fun split :: "string \<Rightarrow> char \<Rightarrow> string list" where
  "split [] sep = [[]]"
| "split (c # cs) sep =
     (if c = sep then [] # split cs sep
      else (case split cs sep of [] \<Rightarrow> [[c]] | w # ws \<Rightarrow> (c # w) # ws))"


subsection \<open>Numbers and text\<close>

text \<open>The value of a digit character, for radices up to 36.\<close>

definition digit_of :: "char \<Rightarrow> nat option" where
  "digit_of c =
     (let n = (of_char c :: nat) in
      if 48 \<le> n \<and> n \<le> 57 then Some (n - 48)
      else if 97 \<le> n \<and> n \<le> 122 then Some (n - 87)
      else if 65 \<le> n \<and> n \<le> 90 then Some (n - 55)
      else None)"

definition is_digit :: "nat \<Rightarrow> char \<Rightarrow> bool" where
  "is_digit radix c = (case digit_of c of None \<Rightarrow> False | Some d \<Rightarrow> d < radix)"

definition digits_val :: "nat \<Rightarrow> string \<Rightarrow> nat" where
  "digits_val radix ds = foldl (\<lambda>acc c. acc * radix + the (digit_of c)) 0 ds"

text \<open>
  \<^verbatim>\<open>parseInt(s)\<close> without a radix: leading white space is skipped, then an
  optional sign, then \<^verbatim>\<open>0x\<close> or \<^verbatim>\<open>0X\<close> selects radix 16; the longest run of
  digits is read and whatever follows is ignored; no digit at all gives \<^verbatim>\<open>NaN\<close>.
  The result is the integer that the digits denote. That is the result of the
  program when this integer is a double, as every safe integer is; for another
  integer the program gives the nearest double (\<open>9007199254740993\<close> is read as
  \<open>9007199254740992\<close>).
\<close>

definition parseInt :: "string \<Rightarrow> jsval" where
  "parseInt s =
     (let t = dropWhile is_ws s;
          neg = (t \<noteq> [] \<and> hd t = CHR ''-'');
          t = (if t \<noteq> [] \<and> (hd t = CHR ''-'' \<or> hd t = CHR ''+'') then tl t else t);
          hex = (startsWith t ''0x'' \<or> startsWith t ''0X'');
          radix = (if hex then 16 else 10);
          t = (if hex then drop 2 t else t);
          ds = takeWhile (is_digit radix) t
      in if ds = [] then NaN
         else Num ((if neg then - 1 else 1) * int (digits_val radix ds)))"

definition all_digits :: "nat \<Rightarrow> string \<Rightarrow> bool" where
  "all_digits radix ds = (ds \<noteq> [] \<and> list_all (is_digit radix) ds)"

text \<open>
  The exponent of a decimal literal: decimal digits with an optional sign.
\<close>

definition signed_integer :: "string \<Rightarrow> int option" where
  "signed_integer t =
     (let neg = (t \<noteq> [] \<and> hd t = CHR ''-'');
          ds = (if t \<noteq> [] \<and> (hd t = CHR ''-'' \<or> hd t = CHR ''+'') then tl t else t)
      in if all_digits 10 ds then Some ((if neg then - 1 else 1) * int (digits_val 10 ds))
         else None)"

text \<open>
  An unsigned decimal literal: digits, optionally a point and more digits (digits
  on at least one side of the point), optionally \<^verbatim>\<open>e\<close> or \<^verbatim>\<open>E\<close> and an
  exponent. A literal that denotes an integer gives that integer. A literal that
  denotes a fraction, and \<^verbatim>\<open>Infinity\<close>, denote numbers outside \<^typ>\<open>jsval\<close>;
  here they give \<open>NaN\<close>.
\<close>

definition decimal_literal :: "string \<Rightarrow> jsval" where
  "decimal_literal t =
     (let mantissa = takeWhile (\<lambda>c. c \<noteq> CHR ''e'' \<and> c \<noteq> CHR ''E'') t;
          rest = dropWhile (\<lambda>c. c \<noteq> CHR ''e'' \<and> c \<noteq> CHR ''E'') t;
          whole = takeWhile (\<lambda>c. c \<noteq> CHR ''.'') mantissa;
          point = dropWhile (\<lambda>c. c \<noteq> CHR ''.'') mantissa;
          fraction = (if point = [] then [] else tl point);
          exponent = (if rest = [] then Some 0 else signed_integer (tl rest))
      in if list_all (is_digit 10) whole \<and> list_all (is_digit 10) fraction \<and>
            (whole \<noteq> [] \<or> fraction \<noteq> [])
         then (case exponent of
                 None \<Rightarrow> NaN
               | Some e \<Rightarrow>
                   (let m = int (digits_val 10 (whole @ fraction));
                        scale = e - int (length fraction)
                    in if 0 \<le> scale then Num (m * 10 ^ nat scale)
                       else if m mod 10 ^ nat (- scale) = 0 then Num (m div 10 ^ nat (- scale))
                       else NaN))
         else NaN)"

text \<open>
  \<^verbatim>\<open>Number(s)\<close> on a string: white space is trimmed, the empty string is \<open>0\<close>,
  then either a radix prefix with digits of that radix, or an optionally signed
  decimal literal.
\<close>

definition Number :: "string \<Rightarrow> jsval" where
  "Number s =
     (let t = trim s in
      if t = [] then Num 0
      else if startsWith t ''0x'' \<or> startsWith t ''0X'' then
        (if all_digits 16 (drop 2 t) then Num (int (digits_val 16 (drop 2 t))) else NaN)
      else if startsWith t ''0o'' \<or> startsWith t ''0O'' then
        (if all_digits 8 (drop 2 t) then Num (int (digits_val 8 (drop 2 t))) else NaN)
      else if startsWith t ''0b'' \<or> startsWith t ''0B'' then
        (if all_digits 2 (drop 2 t) then Num (int (digits_val 2 (drop 2 t))) else NaN)
      else
        (let neg = (hd t = CHR ''-'');
             u = (if hd t = CHR ''-'' \<or> hd t = CHR ''+'' then tl t else t)
         in case decimal_literal u of
              Num m \<Rightarrow> Num (if neg then - m else m)
            | v \<Rightarrow> v))"

text \<open>The decimal digits of a natural number, most significant first.\<close>

definition digit_char :: "nat \<Rightarrow> char" where
  "digit_char d = ''0123456789'' ! d"

fun digits :: "nat \<Rightarrow> string" where
  "digits n = (if n < 10 then [digit_char n] else digits (n div 10) @ [digit_char (n mod 10)])"

declare digits.simps [simp del]

text \<open>
  The text of a non-negative integer: with up to 21 digits (below \<open>10^21\<close>) all
  the digits, from \<open>10^21\<close> on exponent notation, that is the first digit, the
  further digits after a point, \<^verbatim>\<open>e+\<close> and the exponent. The digits are those
  of the integer. For a safe integer they are the digits that the program writes.
  Above \<open>2^53\<close> the program writes the shortest digits that identify the double
  it holds, followed by zeros (\<open>2^69\<close> is written \<open>590295810358705700000\<close>, not
  \<open>590295810358705651712\<close>); there the model agrees with the program on the
  notation chosen, and on the digits for numbers such as \<open>10^21\<close>, whose own
  digits are the shortest ones.
\<close>

definition strip_zeros :: "string \<Rightarrow> string" where
  "strip_zeros ds = rev (dropWhile (\<lambda>c. c = CHR ''0'') (rev ds))"

definition exponential :: "nat \<Rightarrow> string" where
  "exponential n =
     (case strip_zeros (digits n) of
        [] \<Rightarrow> ''0''
      | d # ds \<Rightarrow>
          d # (if ds = [] then [] else CHR ''.'' # ds) @ ''e+'' @ digits (length (digits n) - 1))"

definition number_text :: "nat \<Rightarrow> string" where
  "number_text n = (if length (digits n) \<le> 21 then digits n else exponential n)"

text \<open>\<^verbatim>\<open>`${v}`\<close>: the text of a value in a template string.\<close>

fun toString :: "jsval \<Rightarrow> string" where
  "toString (Num i) = (if i < 0 then CHR ''-'' # number_text (nat (- i)) else number_text (nat i))"
| "toString NaN = ''NaN''"
| "toString Undefined = ''undefined''"

text \<open>
  The safe numbers: \<^verbatim>\<open>NaN\<close> and the integers below \<open>2^53\<close> in magnitude. On
  them \<open>toString\<close> and \<open>parseInt\<close> are the conversions of the program.
\<close>

definition safe_number :: "jsval \<Rightarrow> bool" where
  "safe_number v =
     (case v of Num i \<Rightarrow> \<bar>i\<bar> < 9007199254740992 | NaN \<Rightarrow> True | Undefined \<Rightarrow> False)"

subsection \<open>The class \<^verbatim>\<open>Map\<close>\<close>

text \<open>
  \<^verbatim>\<open>Map\<close> wraps a plain object. Every key the program stores contains a comma,
  so none is an array index and none is a property inherited from
  \<^verbatim>\<open>Object.prototype\<close>: \<^verbatim>\<open>for ... in\<close> visits the keys in the order of their
  first insertion, and assigning to a key that exists keeps its place. The store is
  the list of its pairs in that order.
\<close>

type_synonym store = "(string \<times> jsval) list"

fun Map_set :: "store \<Rightarrow> string \<Rightarrow> jsval \<Rightarrow> store" where
  "Map_set [] key v = [(key, v)]"
| "Map_set ((k, w) # ps) key v =
     (if k = key then (k, v) # ps else (k, w) # Map_set ps key v)"

text \<open>\<^verbatim>\<open>get\<close>: \<^verbatim>\<open>undefined\<close> when the key is missing.\<close>

fun Map_get :: "store \<Rightarrow> string \<Rightarrow> jsval" where
  "Map_get [] key = Undefined"
| "Map_get ((k, w) # ps) key = (if k = key then w else Map_get ps key)"

fun Map_has :: "store \<Rightarrow> string \<Rightarrow> bool" where
  "Map_has [] key = False"
| "Map_has ((k, w) # ps) key = (k = key \<or> Map_has ps key)"

text \<open>
  \<^verbatim>\<open>forEach(callback)\<close>, for a callback that updates a state \<open>'s\<close>: the callback
  gets the value first and the key second.
\<close>

definition Map_forEach :: "store \<Rightarrow> (jsval \<Rightarrow> string \<Rightarrow> 's \<Rightarrow> 's) \<Rightarrow> 's \<Rightarrow> 's" where
  "Map_forEach st callback s = fold (\<lambda>(key, v). callback v key) st s"

subsection \<open>The class \<^verbatim>\<open>Matrix\<close>\<close>

record Matrix =
  numRows :: jsval
  numCols :: jsval
  elements :: store

datatype error = DimensionMismatch | FormatError | TypeError

definition new_Matrix :: "jsval \<Rightarrow> jsval \<Rightarrow> Matrix" where
  "new_Matrix r c = \<lparr>numRows = r, numCols = c, elements = []\<rparr>"

text \<open>The key \<^verbatim>\<open>`${row},${col}`\<close>.\<close>

definition key_of :: "jsval \<Rightarrow> jsval \<Rightarrow> string" where
  "key_of row col = toString row @ '','' @ toString col"

text \<open>
  \<^verbatim>\<open>const [row, col] = key.split(',').map(Number)\<close>: a missing piece is
  \<^verbatim>\<open>undefined\<close>, further pieces are dropped.
\<close>

definition nth_or_undefined :: "jsval list \<Rightarrow> nat \<Rightarrow> jsval" where
  "nth_or_undefined xs i = (if i < length xs then xs ! i else Undefined)"

definition key_numbers :: "string \<Rightarrow> jsval \<times> jsval" where
  "key_numbers key =
     (let parts = map Number (split key CHR '','')
      in (nth_or_undefined parts 0, nth_or_undefined parts 1))"

definition setElement :: "Matrix \<Rightarrow> jsval \<Rightarrow> jsval \<Rightarrow> jsval \<Rightarrow> Matrix" where
  "setElement m row col v =
     (if v \<noteq> Num 0 then m\<lparr>elements := Map_set (elements m) (key_of row col) v\<rparr> else m)"

definition getElement :: "Matrix \<Rightarrow> jsval \<Rightarrow> jsval \<Rightarrow> jsval" where
  "getElement m row col = or_zero (Map_get (elements m) (key_of row col))"

definition add :: "Matrix \<Rightarrow> Matrix \<Rightarrow> error + Matrix" where
  "add this other =
     (if strict_ne (numRows this) (numRows other) \<or> strict_ne (numCols this) (numCols other)
      then Inl DimensionMismatch
      else
        let result = new_Matrix (numRows this) (numCols this);
            result = Map_forEach (elements this) (\<lambda>v key result.
              let (row, col) = key_numbers key;
                  sum = num_add v (getElement other row col)
              in setElement result row col sum) result;
            result = Map_forEach (elements other) (\<lambda>v key result.
              if \<not> Map_has (elements result) key
              then let (row, col) = key_numbers key in setElement result row col v
              else result) result
        in Inr result)"

definition subtract :: "Matrix \<Rightarrow> Matrix \<Rightarrow> error + Matrix" where
  "subtract this other =
     (if strict_ne (numRows this) (numRows other) \<or> strict_ne (numCols this) (numCols other)
      then Inl DimensionMismatch
      else
        let result = new_Matrix (numRows this) (numCols this);
            result = Map_forEach (elements this) (\<lambda>v key result.
              let (row, col) = key_numbers key;
                  diff = num_sub v (getElement other row col)
              in setElement result row col diff) result;
            result = Map_forEach (elements other) (\<lambda>v key result.
              if \<not> Map_has (elements result) key
              then let (row, col) = key_numbers key in setElement result row col (num_neg v)
              else result) result
        in Inr result)"

definition multiply :: "Matrix \<Rightarrow> Matrix \<Rightarrow> error + Matrix" where
  "multiply this other =
     (if strict_ne (numCols this) (numRows other)
      then Inl DimensionMismatch
      else
        let result = new_Matrix (numRows this) (numCols other);
            result = Map_forEach (elements this) (\<lambda>valueA keyA result.
              let (rowA, colA) = key_numbers keyA
              in Map_forEach (elements other) (\<lambda>valueB keyB result.
                   let (rowB, colB) = key_numbers keyB
                   in if \<not> strict_ne colA rowB
                      then let product = num_mul valueA valueB;
                               currentVal = getElement result rowA colB
                           in setElement result rowA colB (num_add currentVal product)
                      else result) result) result
        in Inr result)"

text \<open>
  \<^verbatim>\<open>extractNumber(line, prefix)\<close>. The only \<^verbatim>\<open>throw\<close> is the one for a line
  that does not start with the prefix.
\<close>

definition extractNumber :: "string \<Rightarrow> string \<Rightarrow> error + jsval" where
  "extractNumber line prefix =
     (if \<not> startsWith line prefix then Inl FormatError
      else Inr (parseInt (trim (replace_first prefix line))))"

definition extractValues :: "string \<Rightarrow> error + (jsval \<times> jsval \<times> jsval)" where
  "extractValues line =
     (case (indexOf line CHR ''('', indexOf line CHR '')'') of
        (Some startIndex, Some endIndex) \<Rightarrow>
          (let values = split (slice line (startIndex + 1) endIndex) CHR '',''
           in if length values \<noteq> 3 then Inl FormatError
              else Inr (parseInt (trim (values ! 0)),
                        parseInt (trim (values ! 1)),
                        parseInt (trim (values ! 2))))
      | _ \<Rightarrow> Inl FormatError)"

text \<open>The loop of \<^verbatim>\<open>fromFile\<close> over the lines from the third one on.\<close>

fun parse_lines :: "string list \<Rightarrow> Matrix \<Rightarrow> error + Matrix" where
  "parse_lines [] matrix = Inr matrix"
| "parse_lines (l # ls) matrix =
     (let line = trim l
      in if line = [] then parse_lines ls matrix
         else (case extractValues line of
                 Inl e \<Rightarrow> Inl e
               | Inr (row, col, v) \<Rightarrow> parse_lines ls (setElement matrix row col v)))"

text \<open>
  \<^verbatim>\<open>fromFile\<close>, from the content that \<^verbatim>\<open>readFileSync\<close> returned. \<^verbatim>\<open>split\<close>
  always gives a first line; with no second line, \<^verbatim>\<open>lines[1]\<close> is
  \<^verbatim>\<open>undefined\<close> and the call \<^verbatim>\<open>line.startsWith\<close> raises a \<^verbatim>\<open>TypeError\<close>.
\<close>

definition fromFile :: "string \<Rightarrow> error + Matrix" where
  "fromFile content =
     (case split (trim content) CHR 0x0A of
        [] \<Rightarrow> Inl TypeError
      | l0 # rest \<Rightarrow>
          (case extractNumber l0 ''rows='' of
             Inl e \<Rightarrow> Inl e
           | Inr rows \<Rightarrow>
               (case rest of
                  [] \<Rightarrow> Inl TypeError
                | l1 # data \<Rightarrow>
                    (case extractNumber l1 ''cols='' of
                       Inl e \<Rightarrow> Inl e
                     | Inr cols \<Rightarrow> parse_lines data (new_Matrix rows cols)))))"

subsection \<open>Writing the result\<close>

text \<open>
  The text that the main program writes for \<open>result\<close>. The pieces of a key are
  put into the line as they are, a missing piece as \<^verbatim>\<open>undefined\<close>.
\<close>

definition piece :: "string list \<Rightarrow> nat \<Rightarrow> string" where
  "piece parts i = (if i < length parts then parts ! i else ''undefined'')"


subsection \<open>Properties and example inputs\<close>

text \<open>No entry of the store of a matrix has the value \<open>0\<close>.\<close>

definition no_zero_entries :: "Matrix \<Rightarrow> bool" where
  "no_zero_entries m = (\<forall>(key, v) \<in> set (elements m). v \<noteq> Num 0)"

text \<open>Two \<open>1 \<times> 1\<close> matrices whose only entries cancel, and their files.\<close>

definition one_text :: string where
  "one_text = ''rows=1\<newline>cols=1\<newline>(0, 0, 1)''"

definition minus_one_text :: string where
  "minus_one_text = ''rows=1\<newline>cols=1\<newline>(0, 0, -1)''"

definition one_matrix :: Matrix where
  "one_matrix = setElement (new_Matrix (Num 1) (Num 1)) (Num 0) (Num 0) (Num 1)"

definition minus_one_matrix :: Matrix where
  "minus_one_matrix = setElement (new_Matrix (Num 1) (Num 1)) (Num 0) (Num 0) (Num (- 1))"

text \<open>A row \<open>(1 1)\<close> and a column \<open>(5 -5)\<close>, entries set in that order.\<close>

definition row_matrix :: Matrix where
  "row_matrix =
     setElement (setElement (new_Matrix (Num 1) (Num 2)) (Num 0) (Num 0) (Num 1))
       (Num 0) (Num 1) (Num 1)"

definition col_matrix :: Matrix where
  "col_matrix =
     setElement (setElement (new_Matrix (Num 2) (Num 1)) (Num 0) (Num 0) (Num 5))
       (Num 1) (Num 0) (Num (- 5))"

text \<open>The matrices of the scenario of the specification, and their files.\<close>

definition scenario_A :: Matrix where
  "scenario_A =
     setElement (setElement (new_Matrix (Num 2) (Num 2)) (Num 0) (Num 0) (Num 5))
       (Num 1) (Num 1) (Num 3)"

definition scenario_B :: Matrix where
  "scenario_B =
     setElement (setElement (new_Matrix (Num 2) (Num 2)) (Num 0) (Num 0) (Num 2))
       (Num 0) (Num 1) (Num 4)"

definition scenario_A_text :: string where
  "scenario_A_text = ''rows=2\<newline>cols=2\<newline>(0, 0, 5)\<newline>(1, 1, 3)''"

definition scenario_B_text :: string where
  "scenario_B_text = ''rows=2\<newline>cols=2\<newline>(0, 0, 2)\<newline>(0, 1, 4)''"

text \<open>A file whose only data line has a value that is not a number.\<close>

definition nan_text :: string where
  "nan_text = ''rows=1\<newline>cols=1\<newline>(0, 0, x)''"

definition nan_matrix :: Matrix where
  "nan_matrix = \<lparr>numRows = Num 1, numCols = Num 1, elements = [(''0,0'', NaN)]\<rparr>"

text \<open>The results of the scenario, entries in the order of their insertion.\<close>

definition scenario_sum :: Matrix where
  "scenario_sum =
     \<lparr>numRows = Num 2, numCols = Num 2,
      elements = [(''0,0'', Num 7), (''1,1'', Num 3), (''0,1'', Num 4)]\<rparr>"

definition scenario_difference :: Matrix where
  "scenario_difference =
     \<lparr>numRows = Num 2, numCols = Num 2,
      elements = [(''0,0'', Num 3), (''1,1'', Num 3), (''0,1'', Num (- 4))]\<rparr>"

definition scenario_product :: Matrix where
  "scenario_product =
     \<lparr>numRows = Num 2, numCols = Num 2,
      elements = [(''0,0'', Num 10), (''0,1'', Num 20)]\<rparr>"

text \<open>What \<open>multiply\<close> returns for the row and the column above.\<close>

definition stale_product :: Matrix where
  "stale_product = \<lparr>numRows = Num 1, numCols = Num 1, elements = [(''0,0'', Num 5)]\<rparr>"

text \<open>Files with a wrong header or a wrong data line.\<close>

definition upper_rows_text :: string where
  "upper_rows_text = ''ROWS=2\<newline>cols=2''"

definition upper_cols_text :: string where
  "upper_cols_text = ''rows=2\<newline>COLS=2''"

definition no_paren_text :: string where
  "no_paren_text = ''rows=2\<newline>cols=2\<newline>1, 2, 3''"

definition two_fields_text :: string where
  "two_fields_text = ''rows=2\<newline>cols=2\<newline>(1,2)''"

text \<open>A file that ends after its first line.\<close>

definition rows_only_text :: string where
  "rows_only_text = ''rows=2''"

text \<open>
  A character that is neither white space nor one of the marks of a data line.
\<close>

definition plain_char :: "char \<Rightarrow> bool" where
  "plain_char c = (\<not> is_ws c \<and> c \<noteq> CHR '','' \<and> c \<noteq> CHR ''('' \<and> c \<noteq> CHR '')'')"

text \<open>The line that the main program writes for one entry of the store.\<close>

definition entry_line :: "string \<Rightarrow> jsval \<Rightarrow> string" where
  "entry_line key v =
     ''('' @ piece (split key CHR '','') 0 @ '', '' @ piece (split key CHR '','') 1 @ '', ''
       @ toString v @ '')''"

text \<open>
  A matrix of safe numbers: the dimensions and the stored values are safe numbers,
  every key is the text of two safe numbers with one comma between them, as
  \<open>setElement\<close> writes it for such indices, and no key occurs twice (an object
  has each property once).
\<close>

definition canonical_number :: "string \<Rightarrow> bool" where
  "canonical_number s = (safe_number (parseInt s) \<and> toString (parseInt s) = s)"

definition canonical_key :: "string \<Rightarrow> bool" where
  "canonical_key key =
     (case split key CHR '','' of
        [a, b] \<Rightarrow> canonical_number a \<and> canonical_number b
      | _ \<Rightarrow> False)"

definition number_matrix :: "Matrix \<Rightarrow> bool" where
  "number_matrix m =
     (safe_number (numRows m) \<and> safe_number (numCols m) \<and>
      distinct (map fst (elements m)) \<and>
      (\<forall>(key, v) \<in> set (elements m). canonical_key key \<and> safe_number v))"




section \<open>The store and the iteration over it\<close>

lemma Map_forEach_Nil [simp]: "Map_forEach [] callback s = s"
  by (simp add: Map_forEach_def)

lemma Map_forEach_Cons [simp]:
  "Map_forEach ((key, v) # st) callback s = Map_forEach st callback (callback v key s)"
  by (simp add: Map_forEach_def)

text \<open>A property that every call of the callback keeps holds after the iteration.\<close>

lemma Map_forEach_invariant:
  assumes "P s" and "\<And>v key s. P s \<Longrightarrow> P (callback v key s)"
  shows "P (Map_forEach st callback s)"
  using assms(1)
proof (induction st arbitrary: s)
  case Nil
  then show ?case by simp
next
  case (Cons p st)
  obtain key v where p: "p = (key, v)" by (cases p)
  from Cons.prems have "P (callback v key s)" by (rule assms(2))
  then show ?case unfolding p by (simp add: Cons.IH)
qed

lemma Map_has_Map_set [simp]: "Map_has (Map_set st key v) key"
  by (induction st key v rule: Map_set.induct) auto

lemma Map_get_Map_set [simp]: "Map_get (Map_set st key v) key = v"
  by (induction st key v rule: Map_set.induct) auto

lemma Map_get_absent: "\<not> Map_has st key \<Longrightarrow> Map_get st key = Undefined"
  by (induction st) auto

text \<open>
  A value other than \<open>0\<close> is stored under the key of its position; an entry that
  holds an integer is read as that integer, and a missing entry as \<open>0\<close>.
\<close>

lemma setElement_stores:
  "v \<noteq> Num 0 \<Longrightarrow>
   Map_has (elements (setElement m row col v)) (key_of row col) \<and>
   Map_get (elements (setElement m row col v)) (key_of row col) = v"
  by (simp add: setElement_def)

lemma getElement_integer:
  "Map_get (elements m) (key_of row col) = Num i \<Longrightarrow> getElement m row col = Num i"
  by (simp add: getElement_def)

lemma getElement_absent:
  "\<not> Map_has (elements m) (key_of row col) \<Longrightarrow> getElement m row col = Num 0"
  by (simp add: getElement_def Map_get_absent)

lemma numRows_setElement [simp]: "numRows (setElement m row col v) = numRows m"
  by (simp add: setElement_def)

lemma numCols_setElement [simp]: "numCols (setElement m row col v) = numCols m"
  by (simp add: setElement_def)

section \<open>Zero suppression\<close>

lemma Map_set_no_zero:
  "v \<noteq> Num 0 \<Longrightarrow> \<forall>(k, w) \<in> set st. w \<noteq> Num 0 \<Longrightarrow>
   \<forall>(k, w) \<in> set (Map_set st key v). w \<noteq> Num 0"
  by (induction st key v rule: Map_set.induct) auto

lemma no_zero_setElement: "no_zero_entries m \<Longrightarrow> no_zero_entries (setElement m row col v)"
  by (simp add: no_zero_entries_def setElement_def Map_set_no_zero)

lemma no_zero_new_Matrix: "no_zero_entries (new_Matrix r c)"
  by (simp add: no_zero_entries_def new_Matrix_def)

lemma no_zero_forEach:
  assumes "no_zero_entries s"
    and "\<And>v key s. no_zero_entries s \<Longrightarrow> no_zero_entries (callback v key s)"
  shows "no_zero_entries (Map_forEach st callback s)"
  using assms by (rule Map_forEach_invariant)

lemma no_zero_add: "add a b = Inr m \<Longrightarrow> no_zero_entries m"
  unfolding add_def Let_def
  apply (simp split: if_splits)
  apply (erule subst)
  apply (rule no_zero_forEach)
   apply (rule no_zero_forEach)
    apply (rule no_zero_new_Matrix)
   apply (simp add: split_beta no_zero_setElement)
  apply (simp add: split_beta no_zero_setElement)
  done

lemma no_zero_subtract: "subtract a b = Inr m \<Longrightarrow> no_zero_entries m"
  unfolding subtract_def Let_def
  apply (simp split: if_splits)
  apply (erule subst)
  apply (rule no_zero_forEach)
   apply (rule no_zero_forEach)
    apply (rule no_zero_new_Matrix)
   apply (simp add: split_beta no_zero_setElement)
  apply (simp add: split_beta no_zero_setElement)
  done

lemma no_zero_multiply: "multiply a b = Inr m \<Longrightarrow> no_zero_entries m"
  unfolding multiply_def Let_def
  apply (simp split: if_splits)
  apply (erule subst)
  apply (rule no_zero_forEach)
   apply (rule no_zero_new_Matrix)
  apply (simp add: split_beta)
  apply (rule no_zero_forEach)
   apply assumption
  apply (simp add: split_beta no_zero_setElement)
  done

lemma no_zero_parse_lines:
  "parse_lines ls m0 = Inr m \<Longrightarrow> no_zero_entries m0 \<Longrightarrow> no_zero_entries m"
proof (induction ls arbitrary: m0)
  case Nil
  then show ?case by simp
next
  case (Cons l ls)
  show ?case
  proof (cases "trim l = []")
    case True
    with Cons show ?thesis by simp
  next
    case False
    with Cons.prems(1) obtain row col v where
      ev: "extractValues (trim l) = Inr (row, col, v)" and
      rest: "parse_lines ls (setElement m0 row col v) = Inr m"
      by (auto simp: Let_def split: sum.splits)
    from Cons.IH [OF rest] Cons.prems(2) show ?thesis
      by (simp add: no_zero_setElement)
  qed
qed

lemma no_zero_fromFile: "fromFile content = Inr m \<Longrightarrow> no_zero_entries m"
  unfolding fromFile_def
  by (auto split: list.splits sum.splits dest!: no_zero_parse_lines simp: no_zero_new_Matrix)

section \<open>Dimensions\<close>

lemma dims_forEach:
  assumes "numRows s = r \<and> numCols s = c"
    and "\<And>v key s. numRows s = r \<and> numCols s = c \<Longrightarrow>
           numRows (callback v key s) = r \<and> numCols (callback v key s) = c"
  shows "numRows (Map_forEach st callback s) = r \<and> numCols (Map_forEach st callback s) = c"
  using assms by (rule Map_forEach_invariant)

lemma multiply_dims:
  assumes "multiply this other = Inr res"
  shows "numRows res = numRows this \<and> numCols res = numCols other"
proof -
  let ?r = "numRows this" and ?c = "numCols other"
  let ?inner = "\<lambda>valueA keyA (result :: Matrix).
      let (rowA, colA) = key_numbers keyA
      in Map_forEach (elements other) (\<lambda>valueB keyB result.
           let (rowB, colB) = key_numbers keyB
           in if \<not> strict_ne colA rowB
              then let product = num_mul valueA valueB;
                       currentVal = getElement result rowA colB
                   in setElement result rowA colB (num_add currentVal product)
              else result) result"
  from assms have res: "res = Map_forEach (elements this) ?inner (new_Matrix ?r ?c)"
    by (simp add: multiply_def Let_def split: if_splits)
  have "numRows (Map_forEach (elements this) ?inner (new_Matrix ?r ?c)) = ?r \<and>
        numCols (Map_forEach (elements this) ?inner (new_Matrix ?r ?c)) = ?c"
  proof (rule dims_forEach)
    show "numRows (new_Matrix ?r ?c) = ?r \<and> numCols (new_Matrix ?r ?c) = ?c"
      by (simp add: new_Matrix_def)
  next
    fix valueA keyA and s :: Matrix
    assume s: "numRows s = ?r \<and> numCols s = ?c"
    obtain rowA colA where k: "key_numbers keyA = (rowA, colA)" by (cases "key_numbers keyA")
    have "numRows (Map_forEach (elements other) (\<lambda>valueB keyB result.
           let (rowB, colB) = key_numbers keyB
           in if \<not> strict_ne colA rowB
              then let product = num_mul valueA valueB;
                       currentVal = getElement result rowA colB
                   in setElement result rowA colB (num_add currentVal product)
              else result) s) = ?r \<and>
          numCols (Map_forEach (elements other) (\<lambda>valueB keyB result.
           let (rowB, colB) = key_numbers keyB
           in if \<not> strict_ne colA rowB
              then let product = num_mul valueA valueB;
                       currentVal = getElement result rowA colB
                   in setElement result rowA colB (num_add currentVal product)
              else result) s) = ?c"
      by (rule dims_forEach [OF s]) (simp add: Let_def split_beta)
    then show "numRows (?inner valueA keyA s) = ?r \<and> numCols (?inner valueA keyA s) = ?c"
      by (simp add: k)
  qed
  with res show ?thesis by simp
qed

section \<open>Errors of the reader\<close>

lemma extractValues_error: "extractValues line = Inl e \<Longrightarrow> e = FormatError"
  by (auto simp: extractValues_def Let_def split: option.splits if_splits)

lemma extractNumber_error: "extractNumber line prefix = Inl e \<Longrightarrow> e = FormatError"
  by (auto simp: extractNumber_def split: if_splits)

lemma parse_lines_error: "parse_lines ls m = Inl e \<Longrightarrow> e = FormatError"
proof (induction ls arbitrary: m)
  case Nil
  then show ?case by simp
next
  case (Cons l ls)
  then show ?case
    by (auto simp: Let_def split: if_splits sum.splits dest: extractValues_error)
qed

lemma parse_lines_bad:
  assumes "l \<in> set ls" and "trim l \<noteq> []" and "extractValues (trim l) = Inl FormatError"
  shows "parse_lines ls m = Inl FormatError"
  using assms(1)
proof (induction ls arbitrary: m)
  case Nil
  then show ?case by simp
next
  case (Cons x ls)
  show ?case
  proof (cases "x = l")
    case True
    with assms(2,3) show ?thesis by simp
  next
    case False
    with Cons.prems have "l \<in> set ls" by simp
    then have rest: "parse_lines ls m' = Inl FormatError" for m' by (rule Cons.IH)
    show ?thesis
    proof (cases "trim x = []")
      case True
      then show ?thesis by (simp add: rest)
    next
      case False
      show ?thesis
      proof (cases "extractValues (trim x)")
        case (Inl e)
        with False extractValues_error [OF Inl] show ?thesis by simp
      next
        case (Inr t)
        with False show ?thesis by (simp add: rest split: prod.splits)
      qed
    qed
  qed
qed

lemma fromFile_bad_data_line:
  assumes lines: "split (trim content) CHR 0x0A = l0 # l1 # data"
    and l: "l \<in> set data" "trim l \<noteq> []" "extractValues (trim l) = Inl FormatError"
  shows "fromFile content = Inl FormatError"
proof -
  have "parse_lines data m = Inl FormatError" for m
    using l by (rule parse_lines_bad)
  then show ?thesis
    unfolding fromFile_def lines
    by (auto split: sum.splits dest: extractNumber_error)
qed

lemma extractValues_no_paren:
  "indexOf line CHR ''('' = None \<or> indexOf line CHR '')'' = None \<Longrightarrow>
   extractValues line = Inl FormatError"
  by (auto simp: extractValues_def split: option.splits)

lemma extractValues_not_three:
  "indexOf line CHR ''('' = Some i \<Longrightarrow> indexOf line CHR '')'' = Some j \<Longrightarrow>
   length (split (slice line (i + 1) j) CHR '','') \<noteq> 3 \<Longrightarrow>
   extractValues line = Inl FormatError"
  by (simp add: extractValues_def Let_def)

text \<open>
  The failures that are format errors: with \<open>l0\<close>, \<open>l1\<close> the first two lines
  of the trimmed content and \<open>data\<close> the lines after them, a line \<open>l0\<close> that
  does not start with \<open>rows=\<close>, a line \<open>l1\<close> that does not start with
  \<open>cols=\<close>, a data line that is not blank and lacks a parenthesis, and one whose
  text between the parentheses does not split at commas into exactly three pieces.
\<close>

lemma fromFile_format_errors:
  "(split (trim content) CHR 0x0A = l0 # rest \<and> \<not> startsWith l0 ''rows=''
      \<longrightarrow> fromFile content = Inl FormatError) \<and>
   (split (trim content) CHR 0x0A = l0 # l1 # data \<and> \<not> startsWith l1 ''cols=''
      \<longrightarrow> fromFile content = Inl FormatError) \<and>
   (split (trim content) CHR 0x0A = l0 # l1 # data \<and> l \<in> set data \<and> trim l \<noteq> [] \<and>
    (indexOf (trim l) CHR ''('' = None \<or> indexOf (trim l) CHR '')'' = None)
      \<longrightarrow> fromFile content = Inl FormatError) \<and>
   (split (trim content) CHR 0x0A = l0 # l1 # data \<and> l \<in> set data \<and> trim l \<noteq> [] \<and>
    indexOf (trim l) CHR ''('' = Some i \<and> indexOf (trim l) CHR '')'' = Some j \<and>
    length (split (slice (trim l) (i + 1) j) CHR '','') \<noteq> 3
      \<longrightarrow> fromFile content = Inl FormatError)"
proof -
  have rows: "fromFile content = Inl FormatError"
    if "split (trim content) CHR 0x0A = l0 # rest" "\<not> startsWith l0 ''rows=''"
    using that by (simp add: fromFile_def extractNumber_def)
  have cols: "fromFile content = Inl FormatError"
    if "split (trim content) CHR 0x0A = l0 # l1 # data" "\<not> startsWith l1 ''cols=''"
    using that by (simp add: fromFile_def extractNumber_def)
  have paren: "fromFile content = Inl FormatError"
    if "split (trim content) CHR 0x0A = l0 # l1 # data" "l \<in> set data" "trim l \<noteq> []"
      "indexOf (trim l) CHR ''('' = None \<or> indexOf (trim l) CHR '')'' = None"
    using that(1-3) extractValues_no_paren [OF that(4)] by (rule fromFile_bad_data_line)
  have three: "fromFile content = Inl FormatError"
    if "split (trim content) CHR 0x0A = l0 # l1 # data" "l \<in> set data" "trim l \<noteq> []"
      "indexOf (trim l) CHR ''('' = Some i" "indexOf (trim l) CHR '')'' = Some j"
      "length (split (slice (trim l) (i + 1) j) CHR '','') \<noteq> 3"
    using that(1-3) extractValues_not_three [OF that(4-6)] by (rule fromFile_bad_data_line)
  from rows cols paren three show ?thesis by blast
qed

text \<open>
  Four such files: a first line \<open>ROWS=2\<close>, a second line \<open>COLS=2\<close>, the data
  line \<open>1, 2, 3\<close> and the data line \<open>(1,2)\<close>.
\<close>

lemma fromFile_format_errors_examples:
  "split (trim upper_rows_text) CHR 0x0A = [''ROWS=2'', ''cols=2''] \<and>
   \<not> startsWith ''ROWS=2'' ''rows='' \<and>
   fromFile upper_rows_text = Inl FormatError \<and>
   split (trim upper_cols_text) CHR 0x0A = [''rows=2'', ''COLS=2''] \<and>
   \<not> startsWith ''COLS=2'' ''cols='' \<and>
   fromFile upper_cols_text = Inl FormatError \<and>
   split (trim no_paren_text) CHR 0x0A = [''rows=2'', ''cols=2'', ''1, 2, 3''] \<and>
   trim ''1, 2, 3'' \<noteq> [] \<and>
   indexOf (trim ''1, 2, 3'') CHR ''('' = None \<and>
   indexOf (trim ''1, 2, 3'') CHR '')'' = None \<and>
   fromFile no_paren_text = Inl FormatError \<and>
   split (trim two_fields_text) CHR 0x0A = [''rows=2'', ''cols=2'', ''(1,2)''] \<and>
   trim ''(1,2)'' \<noteq> [] \<and>
   indexOf (trim ''(1,2)'') CHR ''('' = Some 0 \<and>
   indexOf (trim ''(1,2)'') CHR '')'' = Some 4 \<and>
   length (split (slice (trim ''(1,2)'') (0 + 1) 4) CHR '','') \<noteq> 3 \<and>
   fromFile two_fields_text = Inl FormatError"
proof -
  have r1: "split (trim upper_rows_text) CHR 0x0A = [''ROWS=2'', ''cols=2'']" by code_simp
  have r2: "\<not> startsWith ''ROWS=2'' ''rows=''" by code_simp
  have c1: "split (trim upper_cols_text) CHR 0x0A = [''rows=2'', ''COLS=2'']" by code_simp
  have c2: "\<not> startsWith ''COLS=2'' ''cols=''" by code_simp
  have p1: "split (trim no_paren_text) CHR 0x0A = [''rows=2'', ''cols=2'', ''1, 2, 3'']"
    by code_simp
  have p2: "trim ''1, 2, 3'' \<noteq> []" by code_simp
  have p3: "indexOf (trim ''1, 2, 3'') CHR ''('' = None" by code_simp
  have p4: "indexOf (trim ''1, 2, 3'') CHR '')'' = None" by code_simp
  have t1: "split (trim two_fields_text) CHR 0x0A = [''rows=2'', ''cols=2'', ''(1,2)'']"
    by code_simp
  have t2: "trim ''(1,2)'' \<noteq> []" by code_simp
  have t3: "indexOf (trim ''(1,2)'') CHR ''('' = Some 0" by code_simp
  have t4: "indexOf (trim ''(1,2)'') CHR '')'' = Some 4" by code_simp
  have t5: "length (split (slice (trim ''(1,2)'') (0 + 1) 4) CHR '','') \<noteq> 3" by code_simp
  from r1 r2 fromFile_format_errors [of upper_rows_text "''ROWS=2''" "[''cols=2'']"]
  have r: "fromFile upper_rows_text = Inl FormatError" by blast
  from c1 c2 fromFile_format_errors [of upper_cols_text "''rows=2''" _ "''COLS=2''" "[]"]
  have c: "fromFile upper_cols_text = Inl FormatError" by blast
  from p1 p2 p3 p4
    fromFile_format_errors [of no_paren_text "''rows=2''" _ "''cols=2''" "[''1, 2, 3'']" "''1, 2, 3''"]
  have p: "fromFile no_paren_text = Inl FormatError" by simp
  from t1 t2 t3 t4 t5
    fromFile_format_errors [of two_fields_text "''rows=2''" _ "''cols=2''" "[''(1,2)'']" "''(1,2)''" 0 4]
  have t: "fromFile two_fields_text = Inl FormatError" by simp
  from r1 r2 r c1 c2 c p1 p2 p3 p4 p t1 t2 t3 t4 t5 t show ?thesis by blast
qed

section \<open>Numbers and their text\<close>

lemma lt10_cases: "d < 10 \<Longrightarrow> d \<in> {0, 1, 2, 3, 4, 5, 6, 7, 8, 9 :: nat}"
  by auto

lemma digit_char_in: "d < 10 \<Longrightarrow> digit_char d \<in> set ''0123456789''"
  unfolding digit_char_def by (rule nth_mem) simp

lemma digit_of_digit_char: "d < 10 \<Longrightarrow> digit_of (digit_char d) = Some d"
  by (drule lt10_cases) (auto simp: digit_of_def digit_char_def)

lemma set_digits: "set (digits n) \<subseteq> set ''0123456789''"
proof (induction n rule: digits.induct)
  case (1 n)
  show ?case
  proof (cases "n < 10")
    case True
    then show ?thesis using digit_char_in [of n] by (simp add: digits.simps [of n])
  next
    case False
    have "n mod 10 < 10" by simp
    from digit_char_in [OF this] 1 [OF False] False show ?thesis
      by (simp add: digits.simps [of n])
  qed
qed

lemma digits_not_Nil [simp]: "digits n \<noteq> []"
  by (simp add: digits.simps [of n])

lemma digits_small: "n < 10 \<Longrightarrow> digits n = [digit_char n]"
  by (simp add: digits.simps [of n])

lemma digits_large: "10 \<le> n \<Longrightarrow> digits n = digits (n div 10) @ [digit_char (n mod 10)]"
  by (simp add: digits.simps [of n])

text \<open>A number has at most \<open>k\<close> digits exactly when it is below \<open>10^k\<close>.\<close>

lemma length_digits_le: "0 < k \<Longrightarrow> length (digits n) \<le> k \<longleftrightarrow> n < 10 ^ k"
proof (induction n arbitrary: k rule: digits.induct)
  case (1 n)
  show ?case
  proof (cases "n < 10")
    case True
    have "(10::nat) ^ 1 \<le> 10 ^ k" using "1.prems" by (intro power_increasing) simp_all
    with True "1.prems" show ?thesis by (simp add: digits_small)
  next
    case False
    show ?thesis
    proof (cases "k = 1")
      case True
      have "1 \<le> length (digits (n div 10))" by (simp add: Suc_le_eq)
      with True False show ?thesis by (simp add: digits_large)
    next
      case k: False
      with "1.prems" have pos: "0 < k - 1" by simp
      from "1.prems" have pow: "(10::nat) ^ k = 10 ^ (k - 1) * 10"
        by (cases k) simp_all
      have "length (digits n) \<le> k \<longleftrightarrow> length (digits (n div 10)) \<le> k - 1"
        using False "1.prems" by (auto simp: digits_large)
      also have "\<dots> \<longleftrightarrow> n div 10 < 10 ^ (k - 1)" using False pos by (rule "1.IH")
      also have "\<dots> \<longleftrightarrow> n < 10 ^ k" unfolding pow by (simp add: div_less_iff_less_mult)
      finally show ?thesis .
    qed
  qed
qed

lemma number_text_plain: "n < 1000000000000000000000 \<Longrightarrow> number_text n = digits n"
  using length_digits_le [of 21 n] by (simp add: number_text_def)

lemma toString_safe:
  "\<bar>i\<bar> < 9007199254740992 \<Longrightarrow>
   toString (Num i) = (if i < 0 then CHR ''-'' # digits (nat (- i)) else digits (nat i))"
  by (simp add: number_text_plain)

lemma dec_char_is_digit: "c \<in> set ''0123456789'' \<Longrightarrow> is_digit 10 c"
  by (auto simp: is_digit_def digit_of_def)

lemma digits_val_snoc: "digits_val r (ds @ [c]) = digits_val r ds * r + the (digit_of c)"
  by (simp add: digits_val_def)

lemma digits_val_digits: "digits_val 10 (digits n) = n"
proof (induction n rule: digits.induct)
  case (1 n)
  show ?case
  proof (cases "n < 10")
    case True
    then show ?thesis by (simp add: digits.simps [of n] digits_val_def digit_of_digit_char)
  next
    case False
    have "digits_val 10 (digits n) = digits_val 10 (digits (n div 10)) * 10 + n mod 10"
      using False by (simp add: digits.simps [of n] digits_val_snoc digit_of_digit_char)
    with 1 [OF False] show ?thesis by simp
  qed
qed

text \<open>What \<open>parseInt\<close> does after the white space and the sign, on a run of decimal digits.\<close>

lemma startsWith_member:
  assumes "startsWith s [a, b]"
  shows "b \<in> set s"
proof -
  from assms have "b \<in> set (take (length [a, b]) s)" by (simp add: startsWith_def)
  then show ?thesis by (rule in_set_takeD)
qed

lemma parseInt_digits: "parseInt (digits n) = Num (int n)"
proof -
  let ?ds = "digits n"
  have sub: "set ?ds \<subseteq> set ''0123456789''" by (rule set_digits)
  have ne: "?ds \<noteq> []" by simp
  with sub have hd_in: "hd ?ds \<in> set ''0123456789''" by (meson hd_in_set subsetD)
  then have nws: "\<not> is_ws (hd ?ds)" by (auto simp: is_ws_def)
  with ne have ws: "dropWhile is_ws ?ds = ?ds" by (cases ?ds) auto
  from hd_in have sign: "hd ?ds \<noteq> CHR ''-''" "hd ?ds \<noteq> CHR ''+''" by auto
  have nohex: "\<not> startsWith ?ds ''0x''" "\<not> startsWith ?ds ''0X''"
    using startsWith_member [of ?ds "CHR ''0''"] sub by auto
  have all: "takeWhile (is_digit 10) ?ds = ?ds"
    using sub dec_char_is_digit by (simp add: takeWhile_eq_all_conv subset_iff)
  show ?thesis
    by (simp add: parseInt_def Let_def ws sign nohex all digits_val_digits)
qed

lemma parseInt_minus_digits: "parseInt (CHR ''-'' # digits n) = Num (- int n)"
proof -
  let ?ds = "digits n"
  have sub: "set ?ds \<subseteq> set ''0123456789''" by (rule set_digits)
  have ws: "\<not> is_ws CHR ''-''" by (simp add: is_ws_def)
  have nohex: "\<not> startsWith ?ds ''0x''" "\<not> startsWith ?ds ''0X''"
    using startsWith_member [of ?ds "CHR ''0''"] sub by auto
  have all: "takeWhile (is_digit 10) ?ds = ?ds"
    using sub dec_char_is_digit by (simp add: takeWhile_eq_all_conv subset_iff)
  show ?thesis
    by (simp add: parseInt_def Let_def ws nohex all digits_val_digits)
qed

lemma parseInt_NaN: "parseInt ''NaN'' = NaN"
  by code_simp

lemma parseInt_toString: "safe_number v \<Longrightarrow> parseInt (toString v) = v"
  by (cases v)
    (simp_all add: safe_number_def toString_safe parseInt_digits parseInt_minus_digits
      parseInt_NaN del: toString.simps(1))

lemma parseInt_not_Undefined [simp]: "parseInt s \<noteq> Undefined"
  by (simp add: parseInt_def Let_def)

lemma set_strip_zeros: "set (strip_zeros ds) \<subseteq> set ds"
  by (auto simp: strip_zeros_def dest: set_dropWhileD)

lemma number_text_not_Nil [simp]: "number_text n \<noteq> []"
  by (simp add: number_text_def exponential_def split: list.splits)

lemma toString_not_Nil [simp]: "toString v \<noteq> []"
  by (cases v) auto

lemma plain_digits: "c \<in> set (digits n) \<Longrightarrow> plain_char c"
proof -
  assume "c \<in> set (digits n)"
  with set_digits have "c \<in> set ''0123456789''" by blast
  then show ?thesis by (auto simp: plain_char_def is_ws_def)
qed

lemma plain_exponential: "c \<in> set (exponential n) \<Longrightarrow> plain_char c"
proof -
  assume c: "c \<in> set (exponential n)"
  have marks: "plain_char CHR ''0''" "plain_char CHR ''.''" "plain_char CHR ''e''"
    "plain_char CHR ''+''"
    by (simp_all add: plain_char_def is_ws_def)
  show ?thesis
  proof (cases "strip_zeros (digits n)")
    case Nil
    with c marks show ?thesis by (simp add: exponential_def)
  next
    case (Cons d ds)
    with set_strip_zeros [of "digits n"] have "set (d # ds) \<subseteq> set (digits n)" by simp
    moreover from c Cons
    have "c \<in> set (d # ds) \<or> c = CHR ''.'' \<or> c = CHR ''e'' \<or> c = CHR ''+'' \<or>
          c \<in> set (digits (length (digits n) - 1))"
      by (auto simp: exponential_def split: if_splits)
    ultimately show ?thesis using marks plain_digits by blast
  qed
qed

lemma safe_number_text: "c \<in> set (number_text n) \<Longrightarrow> plain_char c"
  using plain_digits plain_exponential by (auto simp: number_text_def split: if_splits)

lemma plain_toString: "c \<in> set (toString v) \<Longrightarrow> plain_char c"
proof (cases v)
  case (Num i)
  assume "c \<in> set (toString v)"
  with Num have "c = CHR ''-'' \<or> c \<in> set (number_text (nat (- i))) \<or> c \<in> set (number_text (nat i))"
    by (auto split: if_splits)
  moreover have "plain_char CHR ''-''" by (simp add: plain_char_def is_ws_def)
  ultimately show ?thesis using safe_number_text by blast
next
  case NaN
  assume "c \<in> set (toString v)"
  with NaN show ?thesis by (auto simp: plain_char_def is_ws_def)
next
  case Undefined
  assume "c \<in> set (toString v)"
  with Undefined show ?thesis by (auto simp: plain_char_def is_ws_def)
qed

lemma plain_not_ws: "plain_char c \<Longrightarrow> \<not> is_ws c"
  by (simp add: plain_char_def)



subsection \<open>Splitting, trimming and joining\<close>

lemma split_not_Nil [simp]: "split s sep \<noteq> []"
  by (induction s) (auto split: list.splits)

lemma split_no_sep: "sep \<notin> set s \<Longrightarrow> split s sep = [s]"
  by (induction s) auto

lemma split_append: "sep \<notin> set a \<Longrightarrow> split (a @ sep # b) sep = a # split b sep"
  by (induction a) auto




lemma trim_id:
  assumes "s \<noteq> []" "\<not> is_ws (hd s)" "\<not> is_ws (last s)"
  shows "trim s = s"
proof -
  from assms(1,2) have 1: "dropWhile is_ws s = s" by (cases s) auto
  from assms(1,3) have 2: "dropWhile is_ws (rev s) = rev s"
    by (cases "rev s") (auto simp: last_rev [symmetric] simp del: last_rev)
  show ?thesis by (simp add: trim_def 1 2)
qed


lemma startsWith_append [simp]: "startsWith (p @ s) p"
  by (simp add: startsWith_def)






subsection \<open>Keys\<close>

lemma comma_not_in_toString: "CHR '','' \<notin> set (toString v)"
  using plain_toString [of "CHR '',''" v] by (auto simp: plain_char_def)

lemma split_key_of: "split (key_of r c) CHR '','' = [toString r, toString c]"
  by (simp add: key_of_def split_append split_no_sep comma_not_in_toString)

lemma canonical_number_toString: "safe_number v \<Longrightarrow> canonical_number (toString v)"
  by (simp add: canonical_number_def parseInt_toString)

lemma canonical_key_of:
  "safe_number r \<Longrightarrow> safe_number c \<Longrightarrow> canonical_key (key_of r c)"
  by (simp add: canonical_key_def split_key_of canonical_number_toString)



subsection \<open>Reading back one written line\<close>







lemma entry_line_not_Nil [simp]: "entry_line key v \<noteq> []"
  by (simp add: entry_line_def)

subsection \<open>Reading back a written matrix\<close>










subsection \<open>Matrices of safe numbers\<close>

text \<open>
  The constructor and \<open>setElement\<close>, given safe numbers, build matrices of safe
  numbers.
\<close>

lemma map_fst_Map_set:
  "map fst (Map_set st key v) = (if key \<in> fst ` set st then map fst st else map fst st @ [key])"
  by (induction st key v rule: Map_set.induct) (auto simp: image_iff)

lemma distinct_Map_set: "distinct (map fst st) \<Longrightarrow> distinct (map fst (Map_set st key v))"
  by (simp add: map_fst_Map_set)

lemma set_Map_set: "set (Map_set st key v) \<subseteq> insert (key, v) (set st)"
  by (induction st key v rule: Map_set.induct) auto

lemma number_matrix_new: "safe_number r \<Longrightarrow> safe_number c \<Longrightarrow> number_matrix (new_Matrix r c)"
  by (simp add: number_matrix_def new_Matrix_def)

lemma number_matrix_setElement:
  assumes "number_matrix m" "safe_number row" "safe_number col" "safe_number v"
  shows "number_matrix (setElement m row col v)"
proof (cases "v = Num 0")
  case True
  with assms(1) show ?thesis by (simp add: setElement_def)
next
  case False
  from assms(2,3) have "canonical_key (key_of row col)" by (rule canonical_key_of)
  with assms(1,4) set_Map_set [of "elements m" "key_of row col" v] False show ?thesis
    by (auto simp: number_matrix_def setElement_def distinct_Map_set)
qed

subsection \<open>Keys are read back as the indices they were written from\<close>

lemma trim_digits: "trim (digits n) = digits n"
proof (rule trim_id)
  show ne: "digits n \<noteq> []" by simp
  from ne have "hd (digits n) \<in> set (digits n)" by (rule hd_in_set)
  then show "\<not> is_ws (hd (digits n))" by (intro plain_not_ws plain_digits)
  from ne have "last (digits n) \<in> set (digits n)" by (rule last_in_set)
  then show "\<not> is_ws (last (digits n))" by (intro plain_not_ws plain_digits)
qed

lemma trim_minus_digits: "trim (CHR ''-'' # digits n) = CHR ''-'' # digits n"
proof (rule trim_id)
  have "last (digits n) \<in> set (digits n)" by (rule last_in_set) simp
  then have "\<not> is_ws (last (digits n))" by (intro plain_not_ws plain_digits)
  then show "\<not> is_ws (last (CHR ''-'' # digits n))" by simp
qed (simp_all add: is_ws_def)

lemma no_radix_prefix:
  assumes "b \<notin> set ''0123456789''"
  shows "\<not> startsWith (digits n) [a, b]"
  using startsWith_member [of "digits n" a b] set_digits [of n] assms by blast

lemma decimal_literal_digits: "decimal_literal (digits n) = Num (int n)"
proof -
  let ?ds = "digits n"
  have dec: "c \<in> set ''0123456789''" if "c \<in> set ?ds" for c
    using that set_digits by blast
  have mantissa: "takeWhile (\<lambda>c. c \<noteq> CHR ''e'' \<and> c \<noteq> CHR ''E'') ?ds = ?ds"
    using dec by (auto simp: takeWhile_eq_all_conv)
  have rest: "dropWhile (\<lambda>c. c \<noteq> CHR ''e'' \<and> c \<noteq> CHR ''E'') ?ds = []"
    using dec by (auto simp: dropWhile_eq_Nil_conv)
  have whole: "takeWhile (\<lambda>c. c \<noteq> CHR ''.'') ?ds = ?ds"
    using dec by (auto simp: takeWhile_eq_all_conv)
  have point: "dropWhile (\<lambda>c. c \<noteq> CHR ''.'') ?ds = []"
    using dec by (auto simp: dropWhile_eq_Nil_conv)
  have all: "list_all (is_digit 10) ?ds"
    using dec by (auto simp: list_all_iff dec_char_is_digit)
  show ?thesis
    by (simp add: decimal_literal_def Let_def mantissa rest whole point all digits_val_digits)
qed

lemma Number_digits: "Number (digits n) = Num (int n)"
proof -
  have "hd (digits n) \<in> set (digits n)" by (rule hd_in_set) simp
  with set_digits have "hd (digits n) \<in> set ''0123456789''" by blast
  then have sign: "hd (digits n) \<noteq> CHR ''-''" "hd (digits n) \<noteq> CHR ''+''" by auto
  show ?thesis
    by (simp add: Number_def Let_def trim_digits no_radix_prefix sign decimal_literal_digits)
qed

lemma Number_minus_digits: "Number (CHR ''-'' # digits n) = Num (- int n)"
  by (simp add: Number_def Let_def trim_minus_digits startsWith_def decimal_literal_digits)

lemma Number_NaN: "Number ''NaN'' = NaN"
  by code_simp

lemma Number_toString: "safe_number v \<Longrightarrow> Number (toString v) = v"
  by (cases v)
    (simp_all add: safe_number_def toString_safe Number_digits Number_minus_digits Number_NaN
      del: toString.simps(1))

lemma key_numbers_key_of:
  "safe_number r \<Longrightarrow> safe_number c \<Longrightarrow> key_numbers (key_of r c) = (r, c)"
  by (simp add: key_numbers_def split_key_of Let_def nth_or_undefined_def Number_toString)

section \<open>The claims\<close>

subsection \<open>C1: addition\<close>

text \<open>
  C1 says that for matrices of equal dimensions \<open>add\<close> gives, at every position,
  the sum of the two elements. The program misses one case. Where both operands have
  an entry and the two cancel, the first loop suppresses the zero sum; the second loop
  then finds the key missing from the result and stores the entry of the other
  operand. For the two \<open>1 \<times> 1\<close> matrices read from the files with the single
  lines \<open>(0, 0, 1)\<close> and \<open>(0, 0, -1)\<close>, the result holds \<open>-1\<close> at \<open>(0,0)\<close>,
  while the sum of the two elements is \<open>0\<close>.
\<close>

theorem add_cancelling_entries:
  "fromFile one_text = Inr one_matrix \<and>
   fromFile minus_one_text = Inr minus_one_matrix \<and>
   add one_matrix minus_one_matrix = Inr minus_one_matrix \<and>
   getElement minus_one_matrix (Num 0) (Num 0) = Num (- 1) \<and>
   num_add (getElement one_matrix (Num 0) (Num 0))
           (getElement minus_one_matrix (Num 0) (Num 0)) = Num 0"
  by code_simp

subsection \<open>C2: subtraction\<close>

text \<open>
  C2 says that for matrices of equal dimensions \<open>subtract\<close> gives, at every
  position, the difference of the two elements. The same case is missed as in
  \<open>add\<close>: where both operands hold the same value, the zero difference is
  suppressed and the second loop stores the negated entry of the other operand.
  Subtracting the \<open>1 \<times> 1\<close> matrix with the entry \<open>1\<close> from itself gives \<open>-1\<close>
  at \<open>(0,0)\<close>, while the difference of the two elements is \<open>0\<close>.
\<close>

theorem subtract_equal_entries:
  "fromFile one_text = Inr one_matrix \<and>
   subtract one_matrix one_matrix = Inr minus_one_matrix \<and>
   getElement minus_one_matrix (Num 0) (Num 0) = Num (- 1) \<and>
   num_sub (getElement one_matrix (Num 0) (Num 0))
           (getElement one_matrix (Num 0) (Num 0)) = Num 0"
  by code_simp

subsection \<open>C3: dimension checks\<close>

text \<open>
  C3: \<open>add\<close> and \<open>subtract\<close> fail with \<open>DimensionMismatch\<close> exactly when the
  row counts or the column counts of the operands differ (by \<^verbatim>\<open>!==\<close>, which
  on integers is inequality and holds whenever a side is \<^verbatim>\<open>NaN\<close>);
  \<open>multiply\<close> fails with \<open>DimensionMismatch\<close> exactly when the column count of
  the first operand differs from the row count of the second; none of the three
  fails in any other way; and a product has the rows of the first operand and the
  columns of the second.
\<close>

theorem dimension_checks:
  "(add this other = Inl DimensionMismatch \<longleftrightarrow>
      strict_ne (numRows this) (numRows other) \<or> strict_ne (numCols this) (numCols other)) \<and>
   (subtract this other = Inl DimensionMismatch \<longleftrightarrow>
      strict_ne (numRows this) (numRows other) \<or> strict_ne (numCols this) (numCols other)) \<and>
   (multiply this other = Inl DimensionMismatch \<longleftrightarrow> strict_ne (numCols this) (numRows other)) \<and>
   (\<forall>e. add this other = Inl e \<or> subtract this other = Inl e \<or> multiply this other = Inl e
        \<longrightarrow> e = DimensionMismatch) \<and>
   (\<forall>res. multiply this other = Inr res \<longrightarrow>
        numRows res = numRows this \<and> numCols res = numCols other)"
proof -
  have a: "add this other = Inl DimensionMismatch \<longleftrightarrow>
      strict_ne (numRows this) (numRows other) \<or> strict_ne (numCols this) (numCols other)"
    by (simp add: add_def Let_def)
  have s: "subtract this other = Inl DimensionMismatch \<longleftrightarrow>
      strict_ne (numRows this) (numRows other) \<or> strict_ne (numCols this) (numCols other)"
    by (simp add: subtract_def Let_def)
  have m: "multiply this other = Inl DimensionMismatch \<longleftrightarrow> strict_ne (numCols this) (numRows other)"
    by (simp add: multiply_def Let_def)
  have e: "e = DimensionMismatch"
    if "add this other = Inl e \<or> subtract this other = Inl e \<or> multiply this other = Inl e" for e
  proof -
    from that consider "add this other = Inl e" | "subtract this other = Inl e"
      | "multiply this other = Inl e" by blast
    then show ?thesis
    proof cases
      case 1
      then show ?thesis by (simp add: add_def Let_def split: if_splits)
    next
      case 2
      then show ?thesis by (simp add: subtract_def Let_def split: if_splits)
    next
      case 3
      then show ?thesis by (simp add: multiply_def Let_def split: if_splits)
    qed
  qed
  from a s m e multiply_dims show ?thesis by blast
qed

text \<open>
  The theorem at the inputs of the specification: a \<open>2 \<times> 3\<close> and a \<open>3 \<times> 2\<close>
  matrix cannot be added or subtracted, a \<open>2 \<times> 3\<close> and a \<open>4 \<times> 5\<close> matrix
  cannot be multiplied, and the product of the scenario is \<open>2 \<times> 2\<close>.
\<close>

theorem dimension_checks_witness:
  "strict_ne (numRows (new_Matrix (Num 2) (Num 3))) (numRows (new_Matrix (Num 3) (Num 2))) \<and>
   add (new_Matrix (Num 2) (Num 3)) (new_Matrix (Num 3) (Num 2)) = Inl DimensionMismatch \<and>
   subtract (new_Matrix (Num 2) (Num 3)) (new_Matrix (Num 3) (Num 2)) = Inl DimensionMismatch \<and>
   strict_ne (numCols (new_Matrix (Num 2) (Num 3))) (numRows (new_Matrix (Num 4) (Num 5))) \<and>
   multiply (new_Matrix (Num 2) (Num 3)) (new_Matrix (Num 4) (Num 5)) = Inl DimensionMismatch \<and>
   multiply scenario_A scenario_B = Inr scenario_product \<and>
   numRows scenario_product = numRows scenario_A \<and>
   numCols scenario_product = numCols scenario_B"
proof -
  have r: "strict_ne (numRows (new_Matrix (Num 2) (Num 3))) (numRows (new_Matrix (Num 3) (Num 2)))"
    by (simp add: new_Matrix_def)
  have c: "strict_ne (numCols (new_Matrix (Num 2) (Num 3))) (numRows (new_Matrix (Num 4) (Num 5)))"
    by (simp add: new_Matrix_def)
  have p: "multiply scenario_A scenario_B = Inr scenario_product"
    by code_simp
  from r dimension_checks [of "new_Matrix (Num 2) (Num 3)" "new_Matrix (Num 3) (Num 2)"]
  have 1: "add (new_Matrix (Num 2) (Num 3)) (new_Matrix (Num 3) (Num 2)) = Inl DimensionMismatch \<and>
           subtract (new_Matrix (Num 2) (Num 3)) (new_Matrix (Num 3) (Num 2)) = Inl DimensionMismatch"
    by blast
  from c dimension_checks [of "new_Matrix (Num 2) (Num 3)" "new_Matrix (Num 4) (Num 5)"]
  have 2: "multiply (new_Matrix (Num 2) (Num 3)) (new_Matrix (Num 4) (Num 5)) = Inl DimensionMismatch"
    by blast
  from p dimension_checks [of scenario_A scenario_B]
  have 3: "numRows scenario_product = numRows scenario_A \<and>
           numCols scenario_product = numCols scenario_B"
    by blast
  from r c p 1 2 3 show ?thesis by blast
qed

subsection \<open>C4: a partial sum that reaches zero\<close>

text \<open>
  C4: for the \<open>1 \<times> 2\<close> matrix with the entries \<open>(0,0) = 1\<close>, \<open>(0,1) = 1\<close> and
  the \<open>2 \<times> 1\<close> matrix with the entries \<open>(0,0) = 5\<close>, \<open>(1,0) = -5\<close>,
  \<open>multiply\<close> returns a matrix whose element at \<open>(0,0)\<close> is \<open>5\<close>, while the
  dot product \<open>1 * 5 + 1 * (-5)\<close> is \<open>0\<close>: storing the running total \<open>5 + (-5)\<close>
  through \<open>setElement\<close> leaves the \<open>5\<close> in place.
\<close>

theorem multiply_stale_partial_sum:
  "\<not> strict_ne (numCols row_matrix) (numRows col_matrix) \<and>
   multiply row_matrix col_matrix = Inr stale_product \<and>
   getElement stale_product (Num 0) (Num 0) = Num 5 \<and>
   num_add (num_mul (getElement row_matrix (Num 0) (Num 0)) (getElement col_matrix (Num 0) (Num 0)))
           (num_mul (getElement row_matrix (Num 0) (Num 1)) (getElement col_matrix (Num 1) (Num 0)))
     = Num 0 \<and>
   setElement stale_product (Num 0) (Num 0) (num_add (Num 5) (num_mul (Num 1) (Num (- 5))))
     = stale_product"
  by code_simp

subsection \<open>C5: the scenario\<close>

text \<open>
  C5: with \<open>A\<close> the \<open>2 \<times> 2\<close> matrix with the entries \<open>(0,0) = 5\<close>,
  \<open>(1,1) = 3\<close> and \<open>B\<close> the \<open>2 \<times> 2\<close> matrix with the entries \<open>(0,0) = 2\<close>,
  \<open>(0,1) = 4\<close>, both as read from their files, the sum has exactly the entries
  \<open>(0,0) = 7\<close>, \<open>(0,1) = 4\<close>, \<open>(1,1) = 3\<close>, the difference exactly
  \<open>(0,0) = 3\<close>, \<open>(0,1) = -4\<close>, \<open>(1,1) = 3\<close>, and the product exactly
  \<open>(0,0) = 10\<close>, \<open>(0,1) = 20\<close>.
\<close>

theorem scenario_results:
  "fromFile scenario_A_text = Inr scenario_A \<and>
   fromFile scenario_B_text = Inr scenario_B \<and>
   add scenario_A scenario_B = Inr scenario_sum \<and>
   set (elements scenario_sum) = {(''0,0'', Num 7), (''0,1'', Num 4), (''1,1'', Num 3)} \<and>
   subtract scenario_A scenario_B = Inr scenario_difference \<and>
   set (elements scenario_difference) = {(''0,0'', Num 3), (''0,1'', Num (- 4)), (''1,1'', Num 3)} \<and>
   multiply scenario_A scenario_B = Inr scenario_product \<and>
   set (elements scenario_product) = {(''0,0'', Num 10), (''0,1'', Num 20)}"
proof -
  have "fromFile scenario_A_text = Inr scenario_A" by code_simp
  moreover have "fromFile scenario_B_text = Inr scenario_B" by code_simp
  moreover have "add scenario_A scenario_B = Inr scenario_sum" by code_simp
  moreover have "subtract scenario_A scenario_B = Inr scenario_difference" by code_simp
  moreover have "multiply scenario_A scenario_B = Inr scenario_product" by code_simp
  moreover have "set (elements scenario_sum) =
      {(''0,0'', Num 7), (''0,1'', Num 4), (''1,1'', Num 3)}"
    by (auto simp: scenario_sum_def)
  moreover have "set (elements scenario_difference) =
      {(''0,0'', Num 3), (''0,1'', Num (- 4)), (''1,1'', Num 3)}"
    by (auto simp: scenario_difference_def)
  moreover have "set (elements scenario_product) = {(''0,0'', Num 10), (''0,1'', Num 20)}"
    by (auto simp: scenario_product_def)
  ultimately show ?thesis by blast
qed

subsection \<open>C6: writing a matrix and reading it back\<close>




subsection \<open>C7: no stored zero\<close>

text \<open>
  C7: a matrix made by the constructor, by \<open>fromFile\<close>, by \<open>add\<close>, by
  \<open>subtract\<close> or by \<open>multiply\<close> has no entry with the value \<open>0\<close>, whatever the
  operands hold.
\<close>

theorem results_have_no_zero_entries:
  "no_zero_entries (new_Matrix r c) \<and>
   (fromFile content = Inr m1 \<longrightarrow> no_zero_entries m1) \<and>
   (add a b = Inr m2 \<longrightarrow> no_zero_entries m2) \<and>
   (subtract a b = Inr m3 \<longrightarrow> no_zero_entries m3) \<and>
   (multiply a b = Inr m4 \<longrightarrow> no_zero_entries m4)"
  using no_zero_new_Matrix no_zero_fromFile no_zero_add no_zero_subtract no_zero_multiply
  by blast

theorem results_have_no_zero_entries_witness:
  "fromFile scenario_A_text = Inr scenario_A \<and> no_zero_entries scenario_A \<and>
   add scenario_A scenario_B = Inr scenario_sum \<and> no_zero_entries scenario_sum \<and>
   subtract scenario_A scenario_B = Inr scenario_difference \<and> no_zero_entries scenario_difference \<and>
   multiply scenario_A scenario_B = Inr scenario_product \<and> no_zero_entries scenario_product"
proof -
  have f: "fromFile scenario_A_text = Inr scenario_A" by code_simp
  have a: "add scenario_A scenario_B = Inr scenario_sum" by code_simp
  have s: "subtract scenario_A scenario_B = Inr scenario_difference" by code_simp
  have m: "multiply scenario_A scenario_B = Inr scenario_product" by code_simp
  from f a s m
    results_have_no_zero_entries [of "Num 2" "Num 2" scenario_A_text scenario_A
      scenario_A scenario_B scenario_sum scenario_difference scenario_product]
  show ?thesis by blast
qed

subsection \<open>C8: setting an element\<close>

text \<open>
  C8 says that \<open>setElement\<close> stores a value other than \<open>0\<close>, and that with the
  value \<open>0\<close> on a key that has an entry no entry remains, so that \<open>getElement\<close>
  returns \<open>0\<close> afterwards. The program skips the write for the value \<open>0\<close> and
  never removes the entry that is there. For the matrix read from the file with the
  single line \<open>(0, 0, 1)\<close>, after setting \<open>(0,0)\<close> to \<open>0\<close> the entry is still
  there and \<open>getElement\<close> returns \<open>1\<close>. (\<open>multiply\<close> makes this very call
  when a running total reaches \<open>0\<close>.)
\<close>

theorem setElement_zero_keeps_entry:
  "fromFile one_text = Inr one_matrix \<and>
   Map_has (elements one_matrix) (key_of (Num 0) (Num 0)) \<and>
   Map_has (elements (setElement one_matrix (Num 0) (Num 0) (Num 0))) (key_of (Num 0) (Num 0)) \<and>
   getElement (setElement one_matrix (Num 0) (Num 0) (Num 0)) (Num 0) (Num 0) = Num 1 \<and>
   getElement (setElement one_matrix (Num 0) (Num 0) (Num 0)) (Num 0) (Num 0) \<noteq> Num 0"
  by code_simp

subsection \<open>C9: reading an element\<close>

text \<open>
  C9 says that \<open>getElement\<close> never fails and returns the stored value whenever an
  entry is present, and \<open>0\<close> otherwise. The default is written \<^verbatim>\<open>|| 0\<close>, which
  takes every falsy value for a missing one. The file whose data line is
  \<open>(0, 0, x)\<close> gives a matrix with an entry at \<open>(0,0)\<close> that holds \<^verbatim>\<open>NaN\<close>;
  the entry is present, and \<open>getElement\<close> returns \<open>0\<close>, not the stored value.
\<close>

theorem getElement_hides_NaN:
  "fromFile nan_text = Inr nan_matrix \<and>
   Map_has (elements nan_matrix) (key_of (Num 0) (Num 0)) \<and>
   Map_get (elements nan_matrix) (key_of (Num 0) (Num 0)) = NaN \<and>
   getElement nan_matrix (Num 0) (Num 0) = Num 0 \<and>
   getElement nan_matrix (Num 0) (Num 0) \<noteq> Map_get (elements nan_matrix) (key_of (Num 0) (Num 0))"
  by code_simp

subsection \<open>C10: format errors\<close>

text \<open>
  C10 says that \<open>fromFile\<close> fails with \<open>FormatError\<close> when the \<open>rows=\<close> or
  the \<open>cols=\<close> header does not match, when a data line lacks the parentheses and
  when the text between them does not split into three pieces. The program tests
  the second line without looking whether there is one. The content \<open>rows=2\<close>
  has a first line that matches and no \<open>cols=\<close> header at all;
  \<^verbatim>\<open>lines[1]\<close> is \<^verbatim>\<open>undefined\<close>, the call of \<^verbatim>\<open>startsWith\<close> on it raises a
  \<open>TypeError\<close>, and the error \<^verbatim>\<open>Invalid file format\<close> is never reached.
\<close>

theorem fromFile_missing_cols_line:
  "split (trim rows_only_text) CHR 0x0A = [''rows=2''] \<and>
   extractNumber ''rows=2'' ''rows='' = Inr (Num 2) \<and>
   fromFile rows_only_text = Inl TypeError \<and>
   fromFile rows_only_text \<noteq> Inl FormatError"
  by code_simp

end
